theory Spec2Isabelle
  imports Complex_Main "HOL-Library.Sublist"
begin

section \<open>JavaScript values used by the graph builder\<close>

text \<open>
  A similarity score is a JavaScript number. The scores come from \<open>parseFloat\<close>, which
  yields a finite number or \<open>NaN\<close>; finite numbers are idealised as reals, \<open>NaN\<close> is kept
  as a value of its own. \<open>Map.get\<close> returns \<open>undefined\<close> for a missing key: a lookup has
  type \<open>jsnum option\<close> with \<open>None\<close> for \<open>undefined\<close>.
\<close>

datatype jsnum = Num real | NaN

text \<open>Truthiness of a looked-up value: \<open>undefined\<close>, \<open>NaN\<close> and \<open>0\<close> are falsy.\<close>

fun truthy :: "jsnum option \<Rightarrow> bool" where
  "truthy None = False"
| "truthy (Some NaN) = False"
| "truthy (Some (Num x)) = (x \<noteq> 0)"

text \<open>\<open>a * b\<close> where \<open>a\<close> was looked up in a map: \<open>undefined * b\<close> and \<open>NaN * b\<close> are \<open>NaN\<close>.\<close>

fun js_times :: "jsnum option \<Rightarrow> jsnum \<Rightarrow> jsnum" where
  "js_times (Some (Num a)) (Num b) = Num (a * b)"
| "js_times _ _ = NaN"

text \<open>\<open>Math.sqrt\<close>: \<open>NaN\<close> for \<open>NaN\<close> and for negative numbers.\<close>

fun Math_sqrt :: "jsnum \<Rightarrow> jsnum" where
  "Math_sqrt (Num x) = (if x < 0 then NaN else Num (sqrt x))"
| "Math_sqrt NaN = NaN"

text \<open>\<open>Math.min\<close>: \<open>NaN\<close> as soon as one argument is \<open>NaN\<close>.\<close>

fun Math_min :: "jsnum \<Rightarrow> jsnum \<Rightarrow> jsnum" where
  "Math_min (Num a) (Num b) = Num (min a b)"
| "Math_min _ _ = NaN"

text \<open>\<open>a > b\<close>: every comparison with \<open>NaN\<close> is false.\<close>

fun js_gt :: "jsnum \<Rightarrow> real \<Rightarrow> bool" where
  "js_gt (Num a) b = (a > b)"
| "js_gt NaN b = False"

text \<open>\<open>v || 0\<close> on a looked-up number: a falsy value becomes \<open>0\<close>.\<close>

fun or_zero :: "jsnum option \<Rightarrow> real" where
  "or_zero (Some (Num x)) = x"
| "or_zero _ = 0"

text \<open>
  \<open>String.prototype.toLowerCase\<close>, on the ASCII letters; the bytes of other characters
  are left as they are.
\<close>

definition toLowerCase_char :: "char \<Rightarrow> char" where
  "toLowerCase_char c =
     (case map_of (zip ''ABCDEFGHIJKLMNOPQRSTUVWXYZ'' ''abcdefghijklmnopqrstuvwxyz'') c of
        Some l \<Rightarrow> l
      | None \<Rightarrow> c)"

definition toLowerCase :: "string \<Rightarrow> string" where
  "toLowerCase s = map toLowerCase_char s"

section \<open>The similarity data client, as the builder sees it\<close>

text \<open>
  What \<open>getArtistInfo\<close> resolves to. The fields \<open>mbid\<close>, \<open>image\<close> and \<open>bio\<close> are copied
  through unread and are left out.
\<close>

record artist_info =
  a_name :: string
  a_listeners :: nat
  a_playcount :: nat
  a_url :: string
  a_tags :: "string list"

text \<open>One entry of the \<open>similar\<close> list of \<open>getSimilarArtists\<close>.\<close>

record similar_artist =
  s_name :: string
  s_match :: jsnum

text \<open>What a call of the client throws: \<open>{statusCode: 429, ...}\<close> or an \<open>Error\<close>.\<close>

datatype error = RateLimited | Failure string

text \<open>
  The place of a call in a build: the two calls for the root, the fetch for the
  \<open>i\<close>-th entry of the first-hop slice, the similar list of the \<open>k\<close>-th expansion
  source, the fetch for the \<open>j\<close>-th selected second-hop candidate.
\<close>

datatype call = RootCall | FirstHopCall nat | SourceCall nat | SecondHopCall nat

text \<open>
  \<open>fastify.lastfm\<close>: the two calls of the client. The answer depends on the call as
  well as on the query: a failure is not cached, so a query that fails at one call can
  succeed at a later one. \<open>getSimilarArtists\<close> gives the \<open>similar\<close> list of its result.
\<close>

record lastfm =
  getArtistInfo :: "call \<Rightarrow> string \<Rightarrow> error + artist_info"
  getSimilarArtists :: "call \<Rightarrow> string \<Rightarrow> nat \<Rightarrow> error + similar_artist list"

section \<open>Graph nodes and edges\<close>

text \<open>
  \<open>createArtistNode\<close>: \<open>id\<close> and \<open>name\<close> are both \<open>artistInfo.name\<close>. The display fields
  \<open>primaryGenre\<close>, \<open>size\<close>, \<open>image\<close>, \<open>bio\<close> and the \<open>data\<close> copy are left out.
\<close>

record artist_node =
  n_name :: string
  n_listeners :: nat
  n_playcount :: nat
  n_url :: string
  n_tags :: "string list"
  isRoot :: bool
  hopLevel :: nat

definition createArtistNode :: "artist_info \<Rightarrow> bool \<Rightarrow> nat \<Rightarrow> artist_node" where
  "createArtistNode artistInfo isRootArg hopLevelArg =
     \<lparr> n_name = a_name artistInfo, n_listeners = a_listeners artistInfo,
       n_playcount = a_playcount artistInfo, n_url = a_url artistInfo,
       n_tags = a_tags artistInfo, isRoot = isRootArg, hopLevel = hopLevelArg \<rparr>"

text \<open>An edge; \<open>weight\<close> always repeats \<open>match\<close>.\<close>

record graph_edge =
  e_id :: string
  source :: string
  target :: string
  match :: jsnum

record graph =
  nodes :: "artist_node list"
  edges :: "graph_edge list"

section \<open>buildArtistGraph (map route)\<close>

text \<open>The mutable locals \<open>nodes\<close>, \<open>edges\<close> and \<open>existingNames\<close>.\<close>

record build_state =
  b_nodes :: "artist_node list"
  b_edges :: "graph_edge list"
  existingNames :: "string set"

definition rootSimilarityMap :: "similar_artist list \<Rightarrow> (string \<rightharpoonup> jsnum)" where
  "rootSimilarityMap similar =
     foldl (\<lambda>m s. m(toLowerCase (s_name s) \<mapsto> s_match s)) Map.empty similar"

datatype first_hop_result =
  FirstHopSuccess similar_artist artist_info
| FirstHopFailure similar_artist error

definition firstHopFetch :: "lastfm \<Rightarrow> call \<Rightarrow> similar_artist \<Rightarrow> first_hop_result" where
  "firstHopFetch fm c similar =
     (case getArtistInfo fm c (s_name similar) of
        Inr artistInfo \<Rightarrow> FirstHopSuccess similar artistInfo
      | Inl err \<Rightarrow> FirstHopFailure similar err)"

definition firstHopResults :: "lastfm \<Rightarrow> nat \<Rightarrow> similar_artist list \<Rightarrow> first_hop_result list" where
  "firstHopResults fm limit similar =
     map (\<lambda>(i, similar). firstHopFetch fm (FirstHopCall i) similar)
       (enumerate 0 (take (min limit (length similar)) similar))"

definition firstHopEdge :: "artist_info \<Rightarrow> similar_artist \<Rightarrow> artist_info \<Rightarrow> graph_edge" where
  "firstHopEdge rootInfo similar artistInfo =
     \<lparr> e_id = a_name rootInfo @ ''->'' @ a_name artistInfo,
       source = a_name rootInfo, target = a_name artistInfo, match = s_match similar \<rparr>"

fun addFirstHop :: "artist_info \<Rightarrow> build_state \<Rightarrow> first_hop_result \<Rightarrow> build_state" where
  "addFirstHop rootInfo st (FirstHopSuccess similar artistInfo) =
     (if toLowerCase (a_name artistInfo) \<noteq> toLowerCase (a_name rootInfo)
      then \<lparr> b_nodes = b_nodes st @ [createArtistNode artistInfo False 1],
             b_edges = b_edges st @ [firstHopEdge rootInfo similar artistInfo],
             existingNames = insert (toLowerCase (a_name artistInfo)) (existingNames st) \<rparr>
      else st)"
| "addFirstHop rootInfo st (FirstHopFailure similar err) = st"

text \<open>A selected second-hop candidate.\<close>

record candidate =
  artistName :: string
  parentNode :: artist_node
  parentSimilarity :: jsnum

text \<open>
  The inner \<open>for ... of\<close> over one source's similar list, with its \<open>break\<close> at
  \<open>maxPerSource = 2\<close>. The state is \<open>selectedSecondHopCandidates\<close> and \<open>globalSeenNames\<close>.
\<close>

fun selectFromSource ::
  "string set \<Rightarrow> artist_node \<Rightarrow> similar_artist list \<Rightarrow> nat \<Rightarrow>
   candidate list \<times> string set \<Rightarrow> candidate list \<times> string set" where
  "selectFromSource existing sourceNode [] addedFromSource sel = sel"
| "selectFromSource existing sourceNode (similar # rest) addedFromSource (selected, globalSeenNames) =
     (if addedFromSource \<ge> 2 then (selected, globalSeenNames)
      else if toLowerCase (s_name similar) \<notin> existing
              \<and> toLowerCase (s_name similar) \<notin> globalSeenNames
              \<and> toLowerCase (s_name similar) \<noteq> toLowerCase (n_name sourceNode)
      then selectFromSource existing sourceNode rest (addedFromSource + 1)
             (selected @ [\<lparr> artistName = s_name similar, parentNode = sourceNode,
                             parentSimilarity = s_match similar \<rparr>],
              insert (toLowerCase (s_name similar)) globalSeenNames)
      else selectFromSource existing sourceNode rest addedFromSource (selected, globalSeenNames))"

datatype batch_result =
  BatchSuccess artist_node "similar_artist list"
| BatchFailure artist_node error

definition batchFetch :: "lastfm \<Rightarrow> call \<Rightarrow> artist_node \<Rightarrow> batch_result" where
  "batchFetch fm c sourceNode =
     (case getSimilarArtists fm c (n_name sourceNode) 5 of
        Inr similar \<Rightarrow> BatchSuccess sourceNode similar
      | Inl err \<Rightarrow> BatchFailure sourceNode err)"

fun selectFromResult ::
  "string set \<Rightarrow> candidate list \<times> string set \<Rightarrow> batch_result \<Rightarrow> candidate list \<times> string set" where
  "selectFromResult existing sel (BatchSuccess sourceNode similar) =
     selectFromSource existing sourceNode similar 0 sel"
| "selectFromResult existing sel (BatchFailure sourceNode err) = sel"

text \<open>
  The outer loop \<open>for (i = 0; i < firstHopArtists.length; i += batchSize)\<close> with
  \<open>batchSize = 4\<close>; the batch is \<open>firstHopArtists.slice(i, i + batchSize)\<close>.
\<close>

function selectBatches ::
  "lastfm \<Rightarrow> string set \<Rightarrow> artist_node list \<Rightarrow> nat \<Rightarrow> candidate list \<times> string set \<Rightarrow>
   candidate list \<times> string set" where
  "selectBatches fm existing firstHopArtists i sel =
     (if i < length firstHopArtists
      then selectBatches fm existing firstHopArtists (i + 4)
             (foldl (selectFromResult existing) sel
                (map (\<lambda>(k, sourceNode). batchFetch fm (SourceCall k) sourceNode)
                   (enumerate i (take 4 (drop i firstHopArtists)))))
      else sel)"
  by pat_completeness auto
termination
  by (relation "measure (\<lambda>(fm, existing, firstHopArtists, i, sel). length firstHopArtists - i)")
     auto

declare selectBatches.simps [simp del]

text \<open>The root-relative similarity of a resolved second-hop candidate.\<close>

definition rootRelativeSimilarity ::
  "(string \<rightharpoonup> jsnum) \<Rightarrow> candidate \<Rightarrow> artist_info \<Rightarrow> jsnum" where
  "rootRelativeSimilarity rsm cand artistInfo =
     (let rootSimilarity = rsm (toLowerCase (a_name artistInfo)) in
      if \<not> truthy rootSimilarity
      then Math_min (Num 0.5)
             (Math_sqrt (js_times (rsm (toLowerCase (n_name (parentNode cand))))
                                  (parentSimilarity cand)))
      else (case rootSimilarity of Some v \<Rightarrow> v | None \<Rightarrow> NaN))"

datatype second_hop_result =
  SecondHopSuccess candidate artist_info jsnum
| SecondHopFailure candidate error

definition secondHopFetch ::
  "lastfm \<Rightarrow> (string \<rightharpoonup> jsnum) \<Rightarrow> call \<Rightarrow> candidate \<Rightarrow> second_hop_result" where
  "secondHopFetch fm rsm c cand =
     (case getArtistInfo fm c (artistName cand) of
        Inr artistInfo \<Rightarrow>
          SecondHopSuccess cand artistInfo (rootRelativeSimilarity rsm cand artistInfo)
      | Inl err \<Rightarrow> SecondHopFailure cand err)"

definition parentEdge :: "candidate \<Rightarrow> artist_info \<Rightarrow> graph_edge" where
  "parentEdge cand artistInfo =
     \<lparr> e_id = n_name (parentNode cand) @ ''->'' @ a_name artistInfo,
       source = n_name (parentNode cand), target = a_name artistInfo,
       match = parentSimilarity cand \<rparr>"

definition rootEdge :: "artist_info \<Rightarrow> artist_info \<Rightarrow> jsnum \<Rightarrow> graph_edge" where
  "rootEdge rootInfo artistInfo rootSimilarity =
     \<lparr> e_id = a_name rootInfo @ ''->'' @ a_name artistInfo @ ''_root'',
       source = a_name rootInfo, target = a_name artistInfo, match = rootSimilarity \<rparr>"

fun addSecondHop :: "artist_info \<Rightarrow> build_state \<Rightarrow> second_hop_result \<Rightarrow> build_state" where
  "addSecondHop rootInfo st (SecondHopSuccess cand artistInfo rootSimilarity) =
     \<lparr> b_nodes = b_nodes st @ [createArtistNode artistInfo False 2],
       b_edges = b_edges st @ [parentEdge cand artistInfo]
                 @ (if js_gt rootSimilarity 0.1
                    then [rootEdge rootInfo artistInfo rootSimilarity] else []),
       existingNames = insert (toLowerCase (a_name artistInfo)) (existingNames st) \<rparr>"
| "addSecondHop rootInfo st (SecondHopFailure cand err) = st"

definition selectedSecondHopCandidates :: "lastfm \<Rightarrow> build_state \<Rightarrow> candidate list" where
  "selectedSecondHopCandidates fm st =
     fst (selectBatches fm (existingNames st)
            (take 8 (filter (\<lambda>n. \<not> isRoot n) (b_nodes st))) 0 ([], {}))"

definition secondHopResults ::
  "lastfm \<Rightarrow> (string \<rightharpoonup> jsnum) \<Rightarrow> build_state \<Rightarrow> second_hop_result list" where
  "secondHopResults fm rsm st =
     map (\<lambda>(j, cand). secondHopFetch fm rsm (SecondHopCall j) cand)
       (enumerate 0 (selectedSecondHopCandidates fm st))"

definition firstHopState :: "lastfm \<Rightarrow> nat \<Rightarrow> artist_info \<Rightarrow> similar_artist list \<Rightarrow> build_state" where
  "firstHopState fm limit rootInfo similar =
     foldl (addFirstHop rootInfo)
       \<lparr> b_nodes = [createArtistNode rootInfo True 0], b_edges = [],
         existingNames = {toLowerCase (a_name rootInfo)} \<rparr>
       (firstHopResults fm limit similar)"

definition secondHopState ::
  "lastfm \<Rightarrow> artist_info \<Rightarrow> similar_artist list \<Rightarrow> build_state \<Rightarrow> build_state" where
  "secondHopState fm rootInfo similar st =
     foldl (addSecondHop rootInfo) st (secondHopResults fm (rootSimilarityMap similar) st)"

text \<open>
  The whole build. \<open>Promise.all\<close> of the two root calls rejects as soon as one of them does;
  every later call sits in a \<open>try\<close>/\<open>catch\<close> of its own. The \<open>stats\<close> of the result
  repeat the two lengths and the root's name and are left out.
\<close>

definition buildArtistGraph :: "lastfm \<Rightarrow> string \<Rightarrow> nat \<Rightarrow> nat \<Rightarrow> error + graph" where
  "buildArtistGraph fm rootArtistName depth limit =
     (let extendedLimit = (if depth > 1 then min 100 (limit * 4) else limit) in
      case getArtistInfo fm RootCall rootArtistName of
        Inl err \<Rightarrow> Inl err
      | Inr rootInfo \<Rightarrow>
         (case getSimilarArtists fm RootCall rootArtistName extendedLimit of
            Inl err \<Rightarrow> Inl err
          | Inr similar \<Rightarrow>
             (let st1 = firstHopState fm limit rootInfo similar;
                  st2 = (if depth > 1 then secondHopState fm rootInfo similar st1 else st1)
              in Inr \<lparr> nodes = b_nodes st2, edges = b_edges st2 \<rparr>)))"

section \<open>buildArtistGraph (export route)\<close>

text \<open>
  The export route carries a copy of the builder of its own: one hop, no \<open>slice\<close>, and
  \<open>processedArtists\<close> (kept in \<open>existingNames\<close>) seeded with the queried root name.
  A failed fetch becomes \<open>null\<close> and is dropped by \<open>filter(Boolean)\<close>.
\<close>

fun addFirstHop_export :: "string \<Rightarrow> build_state \<Rightarrow> first_hop_result \<Rightarrow> build_state" where
  "addFirstHop_export rootArtistName st (FirstHopSuccess similar info) =
     (let st' = (if toLowerCase (a_name info) \<notin> existingNames st
                 then st\<lparr> b_nodes := b_nodes st @ [createArtistNode info False 1],
                         existingNames := insert (toLowerCase (a_name info)) (existingNames st) \<rparr>
                 else st)
      in st'\<lparr> b_edges := b_edges st' @
                 [\<lparr> e_id = rootArtistName @ ''->'' @ a_name info,
                    source = rootArtistName, target = a_name info, match = s_match similar \<rparr>] \<rparr>)"
| "addFirstHop_export rootArtistName st (FirstHopFailure similar err) = st"

definition buildArtistGraph_export :: "lastfm \<Rightarrow> string \<Rightarrow> nat \<Rightarrow> nat \<Rightarrow> error + graph" where
  "buildArtistGraph_export fm rootArtistName depth limit =
     (case getArtistInfo fm RootCall rootArtistName of
        Inl err \<Rightarrow> Inl err
      | Inr rootInfo \<Rightarrow>
         (case getSimilarArtists fm RootCall rootArtistName limit of
            Inl err \<Rightarrow> Inl err
          | Inr similar \<Rightarrow>
             (let st = foldl (addFirstHop_export rootArtistName)
                         \<lparr> b_nodes = [createArtistNode rootInfo True 0], b_edges = [],
                           existingNames = {toLowerCase rootArtistName} \<rparr>
                         (map (\<lambda>(i, similar). firstHopFetch fm (FirstHopCall i) similar)
                            (enumerate 0 similar))
              in Inr \<lparr> nodes = b_nodes st, edges = b_edges st \<rparr>)))"

section \<open>CSV export\<close>

text \<open>Decimal digits of a number, as a template literal prints an integer.\<close>

fun string_of_nat :: "nat \<Rightarrow> string" where
  "string_of_nat n =
     (if n < 10 then [nth ''0123456789'' n]
      else string_of_nat (n div 10) @ [nth ''0123456789'' (n mod 10)])"

declare string_of_nat.simps [simp del]

definition string_of_int :: "int \<Rightarrow> string" where
  "string_of_int i = (if i < 0 then ''-'' @ string_of_nat (nat (- i)) else string_of_nat (nat i))"

text \<open>\<open>Math.round\<close> rounds a half up; the product it is given is the exact one.\<close>

definition Math_round :: "real \<Rightarrow> int" where
  "Math_round x = \<lfloor>x + 1 / 2\<rfloor>"

definition similarityPercent :: "real \<Rightarrow> string" where
  "similarityPercent similarityToRoot = string_of_int (Math_round (similarityToRoot * 100)) @ ''%''"

text \<open>
  The \<open>similarityMap\<close> built from the edges incident to the root; a later edge
  overwrites an earlier one with the same key.
\<close>

definition similarityMap :: "artist_node \<Rightarrow> graph_edge list \<Rightarrow> (string \<rightharpoonup> jsnum)" where
  "similarityMap rootArtist es =
     foldl (\<lambda>m edge.
              if source edge = n_name rootArtist then m(target edge \<mapsto> match edge)
              else if target edge = n_name rootArtist then m(source edge \<mapsto> match edge)
              else m)
       Map.empty es"

definition similarityToRoot :: "(string \<rightharpoonup> jsnum) \<Rightarrow> artist_node \<Rightarrow> real" where
  "similarityToRoot m node = (if isRoot node then 1.0 else or_zero (m (n_name node)))"

definition orbit :: "artist_node \<Rightarrow> string" where
  "orbit node =
     (if hopLevel node = 0 then ''Root''
      else if hopLevel node = 1 then ''1st Hop''
      else if hopLevel node = 2 then ''2nd Hop''
      else ''Unknown'')"

text \<open>\<open>Array.prototype.join\<close>.\<close>

fun join :: "string \<Rightarrow> string list \<Rightarrow> string" where
  "join sep [] = []"
| "join sep [x] = x"
| "join sep (x # y # ys) = x @ sep @ join sep (y # ys)"

text \<open>
  One data row, before its fields are quoted and joined. The two \<open>formatNumber\<close> columns
  (listeners, plays) print by \<open>toLocaleString\<close> of the host and are left out.
\<close>

record csv_row =
  r_name :: string
  r_orbit :: string
  r_genres :: string
  r_similarity :: string
  r_url :: string

definition csvRow :: "(string \<rightharpoonup> jsnum) \<Rightarrow> artist_node \<Rightarrow> csv_row" where
  "csvRow m node =
     \<lparr> r_name = n_name node, r_orbit = orbit node, r_genres = join '', '' (n_tags node),
       r_similarity = similarityPercent (similarityToRoot m node), r_url = n_url node \<rparr>"

definition generateCSVFromGraph :: "graph \<Rightarrow> error + csv_row list" where
  "generateCSVFromGraph g =
     (case find isRoot (nodes g) of
        None \<Rightarrow> Inl (Failure ''No root artist found in graph data'')
      | Some rootArtist \<Rightarrow>
          Inr (map (csvRow (similarityMap rootArtist (edges g))) (nodes g)))"

text \<open>\<open>generateCSV\<close> has the same body.\<close>

definition generateCSV :: "graph \<Rightarrow> error + csv_row list" where
  "generateCSV g =
     (case find isRoot (nodes g) of
        None \<Rightarrow> Inl (Failure ''No root artist found in graph data'')
      | Some rootArtist \<Rightarrow>
          Inr (map (csvRow (similarityMap rootArtist (edges g))) (nodes g)))"

text \<open>An edge joins the node named \<open>k\<close> and the root, in either direction.\<close>

definition connectsToRoot :: "artist_node \<Rightarrow> string \<Rightarrow> graph_edge \<Rightarrow> bool" where
  "connectsToRoot rootArtist k edge \<longleftrightarrow>
     (source edge = n_name rootArtist \<and> target edge = k)
     \<or> (target edge = n_name rootArtist \<and> source edge = k)"

section \<open>The rate-limited request queues\<close>

text \<open>
  What \<open>axios.get\<close> does for one dispatched request: it resolves with the response data,
  or throws an error that carries an HTTP status, or one that carries none.
\<close>

datatype axios_error = HttpError nat | NetworkError string









section \<open>The cache in front of the Last.fm calls\<close>

text \<open>
  The JSON a request resolves to: a body with \<open>error\<close> set and its \<open>message\<close> (empty when
  there is none), an artist, or a similar list.
\<close>

datatype api_data = ApiError string | ArtistData artist_info | SimilarData "similar_artist list"

text \<open>What the two calls store in the cache and return.\<close>

datatype cached = InfoResult artist_info | SimilarResult string "similar_artist list"

record request_params =
  p_method :: string
  p_artist :: string
  p_limit :: "nat option"

text \<open>
  The service's state: the entries of the cache that are still valid, and the requests
  pushed on \<open>requestQueue\<close> by \<open>makeRequest\<close> so far.
\<close>

record service =
  cache :: "string \<rightharpoonup> cached"
  enqueued :: "request_params list"

definition makeRequest ::
  "(request_params \<Rightarrow> axios_error + api_data) \<Rightarrow> request_params \<Rightarrow> service \<Rightarrow>
   (axios_error + api_data) \<times> service" where
  "makeRequest net params s = (net params, s\<lparr> enqueued := enqueued s @ [params] \<rparr>)"

definition error_message :: "axios_error \<Rightarrow> string" where
  "error_message err =
     (case err of
        HttpError status \<Rightarrow> ''Request failed with status code '' @ string_of_nat status
      | NetworkError msg \<Rightarrow> msg)"

text \<open>\<open>data.message || 'Last.fm API error'\<close>, the text thrown for a body with \<open>error\<close> set.\<close>

definition api_message :: "string \<Rightarrow> string" where
  "api_message msg = (if msg = [] then ''Last.fm API error'' else msg)"

text \<open>The \<open>catch\<close> of both calls: status 429 becomes \<open>{statusCode: 429}\<close>.\<close>

definition rethrow :: "string \<Rightarrow> axios_error \<Rightarrow> error" where
  "rethrow what err =
     (if err = HttpError 429 then RateLimited else Failure (what @ error_message err))"

definition LastFmService_getArtistInfo ::
  "(request_params \<Rightarrow> axios_error + api_data) \<Rightarrow> string \<Rightarrow> service \<Rightarrow>
   (error + cached) \<times> service" where
  "LastFmService_getArtistInfo net artist s =
     (let cacheKey = ''info:'' @ toLowerCase artist in
      case cache s cacheKey of
        Some c \<Rightarrow> (Inr c, s)
      | None \<Rightarrow>
         (case makeRequest net
                 \<lparr> p_method = ''artist.getinfo'', p_artist = artist, p_limit = None \<rparr> s of
            (Inl err, s') \<Rightarrow> (Inl (rethrow ''Failed to fetch artist info: '' err), s')
          | (Inr (ArtistData info), s') \<Rightarrow>
              (Inr (InfoResult info), s'\<lparr> cache := (cache s')(cacheKey \<mapsto> InfoResult info) \<rparr>)
          | (Inr (ApiError msg), s') \<Rightarrow>
              (Inl (Failure (''Failed to fetch artist info: '' @ api_message msg)), s')
          | (Inr (SimilarData similar), s') \<Rightarrow>
              (Inl (Failure (''Failed to fetch artist info: ''
                             @ ''Cannot read properties of undefined (reading 'name')'')), s')))"

definition LastFmService_getSimilarArtists ::
  "(request_params \<Rightarrow> axios_error + api_data) \<Rightarrow> string \<Rightarrow> nat \<Rightarrow> service \<Rightarrow>
   (error + cached) \<times> service" where
  "LastFmService_getSimilarArtists net artist limit s =
     (let cacheKey = ''similar:'' @ toLowerCase artist @ '':'' @ string_of_nat limit in
      case cache s cacheKey of
        Some c \<Rightarrow> (Inr c, s)
      | None \<Rightarrow>
         (case makeRequest net
                 \<lparr> p_method = ''artist.getsimilar'', p_artist = artist,
                   p_limit = Some (min limit 100) \<rparr> s of
            (Inl err, s') \<Rightarrow> (Inl (rethrow ''Failed to fetch similar artists: '' err), s')
          | (Inr (SimilarData similar), s') \<Rightarrow>
              (Inr (SimilarResult artist similar),
               s'\<lparr> cache := (cache s')(cacheKey \<mapsto> SimilarResult artist similar) \<rparr>)
          | (Inr (ApiError msg), s') \<Rightarrow>
              (Inl (Failure (''Failed to fetch similar artists: '' @ api_message msg)), s')
          | (Inr (ArtistData info), s') \<Rightarrow>
              (Inr (SimilarResult artist []),
               s'\<lparr> cache := (cache s')(cacheKey \<mapsto> SimilarResult artist []) \<rparr>)))"

section \<open>An invariant of the builder's state\<close>


section \<open>Concrete sources and graphs\<close>

definition artist_named :: "string \<Rightarrow> artist_info" where
  "artist_named n =
     \<lparr> a_name = n, a_listeners = 0, a_playcount = 0, a_url = [], a_tags = [] \<rparr>"

definition scored :: "string \<Rightarrow> jsnum \<Rightarrow> similar_artist" where
  "scored n m = \<lparr> s_name = n, s_match = m \<rparr>"

text \<open>
  The source lists the root's neighbour as \<open>beatles\<close> and resolves that query to the
  artist \<open>The Beatles\<close>, whose own list holds \<open>X\<close>.
\<close>

definition fm_autocorrect :: lastfm where
  "fm_autocorrect =
     \<lparr> getArtistInfo = (\<lambda>c q.
         if q = ''Root'' then Inr (artist_named ''Root'')
         else if q = ''beatles'' then Inr (artist_named ''The Beatles'')
         else if q = ''X'' then Inr (artist_named ''X'')
         else if q = ''Kinks'' then Inr (artist_named ''Kinks'')
         else Inl (Failure ''Failed to fetch artist info: not found'')),
       getSimilarArtists = (\<lambda>c q limit.
         if q = ''Root'' then Inr [scored ''beatles'' (Num 0.8)]
         else if q = ''The Beatles'' then Inr [scored ''X'' (Num 0.6)]
         else if q = ''beatles'' then Inr [scored ''Kinks'' (Num 0.9)]
         else Inl (Failure ''Failed to fetch similar artists: not found'')) \<rparr>"

text \<open>Two entries of the root's list resolve to the same artist.\<close>

definition fm_duplicate :: lastfm where
  "fm_duplicate =
     \<lparr> getArtistInfo = (\<lambda>c q.
         if q = ''Root'' then Inr (artist_named ''Root'')
         else if q = ''Beatles'' \<or> q = ''The Beatles'' then Inr (artist_named ''The Beatles'')
         else Inl (Failure ''Failed to fetch artist info: not found'')),
       getSimilarArtists = (\<lambda>c q limit.
         if q = ''Root'' then Inr [scored ''Beatles'' (Num 0.9), scored ''The Beatles'' (Num 0.8)]
         else Inl (Failure ''Failed to fetch similar artists: not found'')) \<rparr>"


text \<open>
  The root's extended list scores \<open>X\<close> with 0; with \<open>limit = 1\<close> only \<open>A\<close> is a first
  hop, and \<open>A\<close>'s list holds \<open>X\<close>. The fetch of \<open>Gone\<close> fails.
\<close>

definition fm_zero :: lastfm where
  "fm_zero =
     \<lparr> getArtistInfo = (\<lambda>c q.
         if q = ''Root'' then Inr (artist_named ''Root'')
         else if q = ''A'' then Inr (artist_named ''A'')
         else if q = ''X'' then Inr (artist_named ''X'')
         else Inl (Failure ''Failed to fetch artist info: not found'')),
       getSimilarArtists = (\<lambda>c q limit.
         if q = ''Root'' then Inr [scored ''A'' (Num 0.8), scored ''X'' (Num 0)]
         else if q = ''A'' then Inr [scored ''Gone'' (Num 0.7), scored ''X'' (Num 0.6)]
         else Inl (Failure ''Failed to fetch similar artists: not found'')) \<rparr>"

definition node_named :: "string \<Rightarrow> bool \<Rightarrow> nat \<Rightarrow> artist_node" where
  "node_named n r h = createArtistNode (artist_named n) r h"

definition graph_rooted :: graph where
  "graph_rooted =
     \<lparr> nodes = [node_named ''Root'' True 0, node_named ''A'' False 1, node_named ''B'' False 2],
       edges = [\<lparr> e_id = ''Root->A'', source = ''Root'', target = ''A'', match = Num 0.9 \<rparr>,
                \<lparr> e_id = ''A->B'', source = ''A'', target = ''B'', match = Num 0.6 \<rparr>] \<rparr>"

definition graph_rootless :: graph where
  "graph_rootless =
     \<lparr> nodes = [node_named ''A'' False 1, node_named ''B'' False 2],
       edges = [\<lparr> e_id = ''A->B'', source = ''A'', target = ''B'', match = Num 0.6 \<rparr>] \<rparr>"


definition service_warm :: service where
  "service_warm =
     \<lparr> cache = [''info:radiohead'' \<mapsto> InfoResult (artist_named ''Radiohead''),
                 ''similar:radiohead:25'' \<mapsto> SimilarResult ''Radiohead'' [scored ''Muse'' (Num 0.5)]],
       enqueued = [] \<rparr>"

text \<open>A network that answers no request.\<close>

definition net_offline :: "request_params \<Rightarrow> axios_error + api_data" where
  "net_offline params = Inl (NetworkError ''getaddrinfo ENOTFOUND'')"

lemmas build_eval =
  buildArtistGraph_def firstHopState_def firstHopResults_def firstHopFetch_def
  secondHopState_def secondHopResults_def secondHopFetch_def selectedSecondHopCandidates_def
  selectBatches.simps batchFetch_def rootSimilarityMap_def rootRelativeSimilarity_def
  createArtistNode_def firstHopEdge_def parentEdge_def rootEdge_def
  toLowerCase_def toLowerCase_char_def artist_named_def scored_def node_named_def

section \<open>Lemmas about the builder\<close>


lemma n_name_createArtistNode [simp]: "n_name (createArtistNode ai r h) = a_name ai"
  by (simp add: createArtistNode_def)

lemma in_set_enumerateD: "(i, x) \<in> set (enumerate n xs) \<Longrightarrow> x \<in> set xs"
  by (auto simp: in_set_enumerate_eq)









lemma secondHopResults_success:
  "SecondHopSuccess c ai rs \<in> set (secondHopResults fm rsm st) \<Longrightarrow>
   c \<in> set (selectedSecondHopCandidates fm st) \<and> rs = rootRelativeSimilarity rsm c ai"
  by (auto simp: secondHopResults_def secondHopFetch_def split: sum.splits
           dest: in_set_enumerateD)




section \<open>Edge ids\<close>

lemma suffix_self_append: "ws \<noteq> [] \<Longrightarrow> suffix ys (ys @ ws) \<Longrightarrow> set ys \<subseteq> set ws"
proof (induction "length ys" arbitrary: ys rule: less_induct)
  case less
  have sw: "suffix ws (ys @ ws)" by (simp add: suffixI)
  show ?case
  proof (cases "length ys \<le> length ws")
    case True
    from suffix_same_cases[OF less.prems(2) sw] have "suffix ys ws"
    proof
      assume "suffix ys ws" then show ?thesis .
    next
      assume "suffix ws ys"
      then obtain zs where "ys = zs @ ws" by (auto simp: suffix_def)
      with True have "ys = ws" by simp
      then show ?thesis by simp
    qed
    then show ?thesis by (rule set_mono_suffix)
  next
    case False
    from suffix_same_cases[OF less.prems(2) sw] have "suffix ws ys"
    proof
      assume "suffix ws ys" then show ?thesis .
    next
      assume "suffix ys ws"
      then have "length ys \<le> length ws" by (rule suffix_length_le)
      with False show ?thesis by simp
    qed
    then obtain ts where ys: "ys = ts @ ws" by (auto simp: suffix_def)
    with less.prems(2) have "suffix (ts @ ws) ((ts @ ws) @ ws)" by simp
    then have "suffix ts (ts @ ws)" by (simp only: append_assoc[symmetric] same_suffix_suffix)
    moreover have "length ts < length ys" using ys less.prems(1) by simp
    ultimately have "set ts \<subseteq> set ws" using less.hyps less.prems(1) by blast
    with ys show ?thesis by auto
  qed
qed

lemma edge_ids_distinct: "p @ ''->'' @ x \<noteq> r @ ''->'' @ x @ ''_root''"
proof
  assume eq: "p @ ''->'' @ x = r @ ''->'' @ x @ ''_root''"
  let ?S = "''->'' @ x"
  have "suffix ?S (p @ ?S)" by (rule suffixI) simp
  then have a: "suffix ?S (r @ ?S @ ''_root'')" using eq by simp
  have b: "suffix (?S @ ''_root'') (r @ ?S @ ''_root'')" by (rule suffixI) simp
  from suffix_same_cases[OF a b] have "suffix ?S (?S @ ''_root'')"
  proof
    assume "suffix ?S (?S @ ''_root'')" then show ?thesis .
  next
    assume "suffix (?S @ ''_root'') ?S"
    then have "length (?S @ ''_root'') \<le> length ?S" by (rule suffix_length_le)
    then show ?thesis by simp
  qed
  then have "set ?S \<subseteq> set ''_root''" by (intro suffix_self_append) simp_all
  then show False by simp
qed

section \<open>CSV export: the missing root\<close>

lemma find_isRoot_None: "\<forall>n\<in>set ns. \<not> isRoot n \<Longrightarrow> find isRoot ns = None"
  by (simp add: find_None_iff)

text \<open>
  C7. When no node of the graph has \<open>isRoot\<close> set, both \<open>generateCSVFromGraph\<close> and
  \<open>generateCSV\<close> throw the error \<open>No root artist found in graph data\<close> and produce no
  rows.
\<close>

theorem csv_no_root_fails:
  "\<forall>n\<in>set (nodes g). \<not> isRoot n \<Longrightarrow>
   generateCSVFromGraph g = Inl (Failure ''No root artist found in graph data'')
   \<and> generateCSV g = Inl (Failure ''No root artist found in graph data'')"
  by (simp add: generateCSVFromGraph_def generateCSV_def find_isRoot_None)

theorem csv_no_root_fails_witness:
  "map isRoot (nodes graph_rootless) = [False, False]
   \<and> generateCSVFromGraph graph_rootless = Inl (Failure ''No root artist found in graph data'')
   \<and> generateCSV graph_rootless = Inl (Failure ''No root artist found in graph data'')"
proof -
  have m: "map isRoot (nodes graph_rootless) = [False, False]"
    by (simp add: graph_rootless_def node_named_def createArtistNode_def)
  have h: "\<forall>n\<in>set (nodes graph_rootless). \<not> isRoot n"
    by (simp add: graph_rootless_def node_named_def createArtistNode_def)
  from csv_no_root_fails[OF h] m show ?thesis by simp
qed

section \<open>The cache comes first\<close>

lemma string_of_nat_25: "string_of_nat 25 = ''25''"
  by (simp add: string_of_nat.simps)

text \<open>
  C9. \<open>getArtistInfo\<close> looks up \<open>"info:" + lowercase(name)\<close> and \<open>getSimilarArtists\<close>
  looks up \<open>"similar:" + lowercase(name) + ":" + limit\<close>; when the key is in the cache
  the cached value is returned and the service's state is unchanged: nothing is pushed
  on the request queue, so no external call follows.
\<close>

theorem cache_hit_short_circuits:
  "(cache s (''info:'' @ toLowerCase artist) = Some c \<longrightarrow>
     LastFmService_getArtistInfo net artist s = (Inr c, s)) \<and>
   (cache s (''similar:'' @ toLowerCase artist @ '':'' @ string_of_nat limit) = Some c' \<longrightarrow>
     LastFmService_getSimilarArtists net artist limit s = (Inr c', s))"
  by (simp add: LastFmService_getArtistInfo_def LastFmService_getSimilarArtists_def)

theorem cache_hit_short_circuits_witness:
  "cache service_warm (''info:'' @ toLowerCase ''Radiohead'')
     = Some (InfoResult (artist_named ''Radiohead''))
   \<and> LastFmService_getArtistInfo net_offline ''Radiohead'' service_warm
       = (Inr (InfoResult (artist_named ''Radiohead'')), service_warm)
   \<and> enqueued (snd (LastFmService_getArtistInfo net_offline ''Radiohead'' service_warm)) = []
   \<and> cache service_warm (''similar:'' @ toLowerCase ''Radiohead'' @ '':'' @ string_of_nat 25)
       = Some (SimilarResult ''Radiohead'' [scored ''Muse'' (Num 0.5)])
   \<and> LastFmService_getSimilarArtists net_offline ''Radiohead'' 25 service_warm
       = (Inr (SimilarResult ''Radiohead'' [scored ''Muse'' (Num 0.5)]), service_warm)"
proof -
  have h1: "cache service_warm (''info:'' @ toLowerCase ''Radiohead'')
              = Some (InfoResult (artist_named ''Radiohead''))"
    by (simp add: service_warm_def toLowerCase_def toLowerCase_char_def)
  have h2: "cache service_warm (''similar:'' @ toLowerCase ''Radiohead'' @ '':'' @ string_of_nat 25)
              = Some (SimilarResult ''Radiohead'' [scored ''Muse'' (Num 0.5)])"
    by (simp add: service_warm_def toLowerCase_def toLowerCase_char_def string_of_nat_25)
  have e: "enqueued service_warm = []" by (simp add: service_warm_def)
  from cache_hit_short_circuits[of service_warm "''Radiohead''"
         "InfoResult (artist_named ''Radiohead'')" net_offline 25
         "SimilarResult ''Radiohead'' [scored ''Muse'' (Num 0.5)]"] h1 h2 e
  show ?thesis by simp
qed

section \<open>Root-relative similarity of a second-hop candidate\<close>

lemma cap_binds: "1 / 4 \<le> x \<Longrightarrow> min (1 / 2) (sqrt x) = (1 / 2 :: real)"
proof -
  assume "1 / 4 \<le> x"
  then have "sqrt (1 / 4) \<le> sqrt x" by (simp only: real_sqrt_le_iff)
  moreover have "sqrt (1 / 4) = (1 / 2 :: real)"
    by (rule real_sqrt_unique) (simp_all add: power2_eq_square)
  ultimately show ?thesis by simp
qed

lemma rootRelativeSimilarity_falsy:
  "\<not> truthy (rsm (toLowerCase (a_name ai))) \<Longrightarrow>
   rootRelativeSimilarity rsm cand ai =
     Math_min (Num 0.5) (Math_sqrt (js_times (rsm (toLowerCase (n_name (parentNode cand))))
                                             (parentSimilarity cand)))"
  by (simp add: rootRelativeSimilarity_def)

lemma indirect_estimate_when_parent_listed:
  assumes "rsm (toLowerCase (a_name ai)) = None"
      and "rsm (toLowerCase (n_name (parentNode cand))) = Some (Num s_rp)"
      and "parentSimilarity cand = Num s_pc" and "0 \<le> s_rp * s_pc"
  shows "rootRelativeSimilarity rsm cand ai = Num (min 0.5 (sqrt (s_rp * s_pc)))"
  using assms by (simp add: rootRelativeSimilarity_falsy)

lemma fm_zero_results:
  "secondHopResults fm_zero (rootSimilarityMap [scored ''A'' (Num 0.8), scored ''X'' (Num 0)])
     (firstHopState fm_zero 1 (artist_named ''Root'') [scored ''A'' (Num 0.8), scored ''X'' (Num 0)])
   = [SecondHopFailure \<lparr> artistName = ''Gone'', parentNode = node_named ''A'' False 1,
                          parentSimilarity = Num 0.7 \<rparr>
        (Failure ''Failed to fetch artist info: not found''),
      SecondHopSuccess \<lparr> artistName = ''X'', parentNode = node_named ''A'' False 1,
                          parentSimilarity = Num 0.6 \<rparr>
        (artist_named ''X'') (Num 0.5)]"
  by (simp add: build_eval fm_zero_def cap_binds)

text \<open>
  C10. A second-hop candidate whose resolved name has the score 0 in the root's lookup
  is treated like one that is absent from it: the test is \<open>!rootSimilarity\<close>, so the
  builder assigns the indirect estimate, the capped geometric mean, and not the score 0.
\<close>

theorem zero_score_falls_through:
  assumes "SecondHopSuccess cand artistInfo rs \<in> set (secondHopResults fm rsm st)"
      and "rsm (toLowerCase (a_name artistInfo)) = Some (Num 0)"
  shows "rs = Math_min (Num 0.5)
                (Math_sqrt (js_times (rsm (toLowerCase (n_name (parentNode cand))))
                                     (parentSimilarity cand)))"
proof -
  from assms(1) have "rs = rootRelativeSimilarity rsm cand artistInfo"
    by (simp add: secondHopResults_success)
  moreover have "\<not> truthy (rsm (toLowerCase (a_name artistInfo)))"
    using assms(2) by simp
  ultimately show ?thesis by (simp add: rootRelativeSimilarity_falsy)
qed

theorem zero_score_falls_through_witness:
  "SecondHopSuccess \<lparr> artistName = ''X'', parentNode = node_named ''A'' False 1,
                       parentSimilarity = Num 0.6 \<rparr> (artist_named ''X'') (Num 0.5)
     \<in> set (secondHopResults fm_zero
              (rootSimilarityMap [scored ''A'' (Num 0.8), scored ''X'' (Num 0)])
              (firstHopState fm_zero 1 (artist_named ''Root'')
                 [scored ''A'' (Num 0.8), scored ''X'' (Num 0)]))
   \<and> rootSimilarityMap [scored ''A'' (Num 0.8), scored ''X'' (Num 0)]
        (toLowerCase (a_name (artist_named ''X''))) = Some (Num 0)
   \<and> Num 0.5 = Math_min (Num 0.5) (Math_sqrt (js_times
        (rootSimilarityMap [scored ''A'' (Num 0.8), scored ''X'' (Num 0)]
           (toLowerCase (n_name (parentNode
              \<lparr> artistName = ''X'', parentNode = node_named ''A'' False 1,
                 parentSimilarity = Num 0.6 \<rparr>))))
        (parentSimilarity \<lparr> artistName = ''X'', parentNode = node_named ''A'' False 1,
                             parentSimilarity = Num 0.6 \<rparr>)))"
proof -
  let ?rsm = "rootSimilarityMap [scored ''A'' (Num 0.8), scored ''X'' (Num 0)]"
  let ?c = "\<lparr> artistName = ''X'', parentNode = node_named ''A'' False 1,
                 parentSimilarity = Num 0.6 \<rparr>"
  have h1: "SecondHopSuccess ?c (artist_named ''X'') (Num 0.5)
     \<in> set (secondHopResults fm_zero ?rsm
              (firstHopState fm_zero 1 (artist_named ''Root'')
                 [scored ''A'' (Num 0.8), scored ''X'' (Num 0)]))"
    by (simp only: fm_zero_results) simp
  have h2: "?rsm (toLowerCase (a_name (artist_named ''X''))) = Some (Num 0)"
    by (simp add: build_eval)
  from zero_score_falls_through[OF h1 h2] h1 h2 show ?thesis by blast
qed

text \<open>
  C1: a second-hop candidate absent from the root's lookup should be assigned
  \<open>min(0.5, sqrt(s_rp * s_pc))\<close>, which is 0.5 for 0.8 and 0.6. The builder does not do
  so at this input. The root lists its neighbour as \<open>beatles\<close> with score 0.8 and the
  source resolves that query to \<open>The Beatles\<close>; the candidate \<open>X\<close> comes from that
  node's list with score 0.6 and is absent from the root's lookup. The lookup is keyed
  by the listed name, the parent is looked up by its resolved name, the product is
  \<open>undefined * 0.6\<close>, and the candidate is assigned \<open>NaN\<close>. No root edge is added.
\<close>

theorem autocorrected_parent_gives_nan:
  "secondHopResults fm_autocorrect (rootSimilarityMap [scored ''beatles'' (Num 0.8)])
     (firstHopState fm_autocorrect 5 (artist_named ''Root'') [scored ''beatles'' (Num 0.8)])
   = [SecondHopSuccess \<lparr> artistName = ''X'', parentNode = node_named ''The Beatles'' False 1,
                          parentSimilarity = Num 0.6 \<rparr>
        (artist_named ''X'') NaN]
   \<and> buildArtistGraph fm_autocorrect ''Root'' 2 5 =
      Inr \<lparr> nodes = [node_named ''Root'' True 0, node_named ''The Beatles'' False 1,
                     node_named ''X'' False 2],
            edges = [\<lparr> e_id = ''Root->The Beatles'', source = ''Root'',
                       target = ''The Beatles'', match = Num 0.8 \<rparr>,
                     \<lparr> e_id = ''The Beatles->X'', source = ''The Beatles'',
                       target = ''X'', match = Num 0.6 \<rparr>] \<rparr>
   \<and> Math_min (Num 0.5) (Math_sqrt (js_times (Some (Num 0.8)) (Num 0.6))) = Num 0.5"
  by (simp add: build_eval fm_autocorrect_def cap_binds)

section \<open>Nodes and edges of the result\<close>

text \<open>
  C4: no two nodes of a result should have the same lowercase name. The builder breaks
  this at the following input. Two entries of the root's list resolve to the same
  artist; the first-hop loop compares a resolved name with the root only, and the
  result holds the node twice.
\<close>

theorem duplicate_first_hop_nodes:
  "buildArtistGraph fm_duplicate ''Root'' 1 5 =
     Inr \<lparr> nodes = [node_named ''Root'' True 0, node_named ''The Beatles'' False 1,
                    node_named ''The Beatles'' False 1],
           edges = [\<lparr> e_id = ''Root->The Beatles'', source = ''Root'',
                      target = ''The Beatles'', match = Num 0.9 \<rparr>,
                    \<lparr> e_id = ''Root->The Beatles'', source = ''Root'',
                      target = ''The Beatles'', match = Num 0.8 \<rparr>] \<rparr>
   \<and> \<not> distinct (map (\<lambda>n. toLowerCase (n_name n))
         (nodes (projr (buildArtistGraph fm_duplicate ''Root'' 1 5))))"
  by (simp add: build_eval fm_duplicate_def)

text \<open>
  C3: both ends of every edge should be names of nodes of the same result. The map
  route's builder keeps this for every source (\<open>buildArtistGraph_no_dangling_edges\<close>);
  the export route's builder breaks it at the following input. It names the queried
  root in its edges and the resolved root in its node: when the two differ, every edge
  has a source that is no node.
\<close>

theorem export_builder_dangling_source:
  "buildArtistGraph_export fm_autocorrect ''beatles'' 1 5 =
     Inr \<lparr> nodes = [node_named ''The Beatles'' True 0, node_named ''Kinks'' False 1],
           edges = [\<lparr> e_id = ''beatles->Kinks'', source = ''beatles'', target = ''Kinks'',
                      match = Num 0.9 \<rparr>] \<rparr>
   \<and> ''beatles'' \<notin> set (map n_name
         (nodes (projr (buildArtistGraph_export fm_autocorrect ''beatles'' 1 5))))"
  by (simp add: buildArtistGraph_export_def build_eval fm_autocorrect_def)


section \<open>Failed fetches\<close>











section \<open>Edges of the second hop\<close>

lemma b_edges_addSecondHop:
  "b_edges (addSecondHop rootInfo st r) =
     b_edges st @ (case r of
        SecondHopSuccess cand ai rs \<Rightarrow>
          parentEdge cand ai # (if js_gt rs 0.1 then [rootEdge rootInfo ai rs] else [])
      | SecondHopFailure cand err \<Rightarrow> [])"
  by (cases r) simp_all

lemma b_edges_foldl_addSecondHop:
  "b_edges (foldl (addSecondHop rootInfo) st results) =
     b_edges st @ concat (map (\<lambda>r. case r of
        SecondHopSuccess cand ai rs \<Rightarrow>
          parentEdge cand ai # (if js_gt rs 0.1 then [rootEdge rootInfo ai rs] else [])
      | SecondHopFailure cand err \<Rightarrow> []) results)"
proof (induction results arbitrary: st)
  case Nil
  show ?case by simp
next
  case (Cons r results)
  show ?case by (simp add: Cons.IH b_edges_addSecondHop)
qed

lemma fm_zero_firstHopState:
  "firstHopState fm_zero 1 (artist_named ''Root'') [scored ''A'' (Num 0.8), scored ''X'' (Num 0)]
   = \<lparr> b_nodes = [node_named ''Root'' True 0, node_named ''A'' False 1],
       b_edges = [\<lparr> e_id = ''Root->A'', source = ''Root'', target = ''A'', match = Num 0.8 \<rparr>],
       existingNames = {''a'', ''root''} \<rparr>"
  by (simp add: build_eval fm_zero_def)

lemma fm_zero_first_edges:
  "b_edges (firstHopState fm_zero 1 (artist_named ''Root'')
              [scored ''A'' (Num 0.8), scored ''X'' (Num 0)])
   = [\<lparr> e_id = ''Root->A'', source = ''Root'', target = ''A'', match = Num 0.8 \<rparr>]"
  unfolding fm_zero_firstHopState by simp

text \<open>
  C2. In a depth-2 build the edges of the result are the first-hop edges followed, for
  each second-hop result in order, by nothing when its fetch failed and otherwise by the
  edge from the parent source to the new node with the source's own score, and then by
  the edge from the root to the node with the root-relative score exactly when that
  score is greater than 0.1 (0.1 itself and \<open>NaN\<close> are not). The two edges never have
  the same id.
\<close>

theorem second_hop_edges:
  assumes "getArtistInfo fm RootCall rootArtistName = Inr rootInfo"
      and "getSimilarArtists fm RootCall rootArtistName (min 100 (limit * 4)) = Inr similar"
      and "depth > 1"
  shows "\<exists>g. buildArtistGraph fm rootArtistName depth limit = Inr g
     \<and> edges g =
         b_edges (firstHopState fm limit rootInfo similar) @
         concat (map (\<lambda>r. case r of
                   SecondHopSuccess cand ai rs \<Rightarrow>
                     parentEdge cand ai #
                     (if js_gt rs 0.1 then [rootEdge rootInfo ai rs] else [])
                 | SecondHopFailure cand err \<Rightarrow> [])
           (secondHopResults fm (rootSimilarityMap similar)
              (firstHopState fm limit rootInfo similar)))
     \<and> (\<forall>cand ai rs.
           source (parentEdge cand ai) = n_name (parentNode cand)
           \<and> target (parentEdge cand ai) = a_name ai
           \<and> match (parentEdge cand ai) = parentSimilarity cand
           \<and> source (rootEdge rootInfo ai rs) = a_name rootInfo
           \<and> target (rootEdge rootInfo ai rs) = a_name ai
           \<and> match (rootEdge rootInfo ai rs) = rs
           \<and> e_id (parentEdge cand ai) \<noteq> e_id (rootEdge rootInfo ai rs))
     \<and> (\<forall>x. js_gt (Num x) 0.1 \<longleftrightarrow> 0.1 < x)
     \<and> \<not> js_gt (Num 0.1) 0.1 \<and> \<not> js_gt NaN 0.1"
proof -
  have ids: "\<And>cand ai rs. e_id (parentEdge cand ai) \<noteq> e_id (rootEdge rootInfo ai rs)"
    by (simp only: parentEdge_def rootEdge_def graph_edge.simps edge_ids_distinct
          not_False_eq_True)
  have "buildArtistGraph fm rootArtistName depth limit =
          Inr \<lparr> nodes = b_nodes (secondHopState fm rootInfo similar
                                   (firstHopState fm limit rootInfo similar)),
                edges = b_edges (secondHopState fm rootInfo similar
                                   (firstHopState fm limit rootInfo similar)) \<rparr>"
    using assms by (simp add: buildArtistGraph_def Let_def)
  then show ?thesis
    using ids
    by (simp add: secondHopState_def b_edges_foldl_addSecondHop parentEdge_def rootEdge_def)
qed

theorem second_hop_edges_witness:
  "getArtistInfo fm_zero RootCall ''Root'' = Inr (artist_named ''Root'')
   \<and> getSimilarArtists fm_zero RootCall ''Root'' (min 100 (1 * 4))
        = Inr [scored ''A'' (Num 0.8), scored ''X'' (Num 0)]
   \<and> (2::nat) > 1
   \<and> (\<exists>g. buildArtistGraph fm_zero ''Root'' 2 1 = Inr g
        \<and> edges g =
           [\<lparr> e_id = ''Root->A'', source = ''Root'', target = ''A'', match = Num 0.8 \<rparr>,
            \<lparr> e_id = ''A->X'', source = ''A'', target = ''X'', match = Num 0.6 \<rparr>,
            \<lparr> e_id = ''Root->X_root'', source = ''Root'', target = ''X'', match = Num 0.5 \<rparr>])"
proof -
  have h1: "getArtistInfo fm_zero RootCall ''Root'' = Inr (artist_named ''Root'')"
    by (simp add: fm_zero_def)
  have h2: "getSimilarArtists fm_zero RootCall ''Root'' (min 100 (1 * 4))
              = Inr [scored ''A'' (Num 0.8), scored ''X'' (Num 0)]"
    by (simp add: fm_zero_def)
  have h3: "(2::nat) > 1" by simp
  from second_hop_edges[OF h1 h2 h3] obtain g where
    g: "buildArtistGraph fm_zero ''Root'' 2 1 = Inr g" and
    e: "edges g =
         b_edges (firstHopState fm_zero 1 (artist_named ''Root'')
                    [scored ''A'' (Num 0.8), scored ''X'' (Num 0)]) @
         concat (map (\<lambda>r. case r of
                   SecondHopSuccess cand ai rs \<Rightarrow>
                     parentEdge cand ai #
                     (if js_gt rs 0.1 then [rootEdge (artist_named ''Root'') ai rs] else [])
                 | SecondHopFailure cand err \<Rightarrow> [])
           (secondHopResults fm_zero
              (rootSimilarityMap [scored ''A'' (Num 0.8), scored ''X'' (Num 0)])
              (firstHopState fm_zero 1 (artist_named ''Root'')
                 [scored ''A'' (Num 0.8), scored ''X'' (Num 0)])))"
    by blast
  have "edges g =
           [\<lparr> e_id = ''Root->A'', source = ''Root'', target = ''A'', match = Num 0.8 \<rparr>,
            \<lparr> e_id = ''A->X'', source = ''A'', target = ''X'', match = Num 0.6 \<rparr>,
            \<lparr> e_id = ''Root->X_root'', source = ''Root'', target = ''X'', match = Num 0.5 \<rparr>]"
    unfolding e fm_zero_results fm_zero_first_edges
    by (simp add: parentEdge_def rootEdge_def node_named_def artist_named_def)
  with g h1 h2 h3 show ?thesis by blast
qed

section \<open>CSV export: similarity to the root\<close>

lemma similarityPercent_one: "similarityPercent 1 = ''100%''"
  by (simp add: similarityPercent_def Math_round_def string_of_int_def string_of_nat.simps)

lemma similarityPercent_zero: "similarityPercent 0 = ''0%''"
  by (simp add: similarityPercent_def Math_round_def string_of_int_def string_of_nat.simps)

lemma similarityPercent_90: "similarityPercent 0.9 = ''90%''"
  by (simp add: similarityPercent_def Math_round_def string_of_int_def string_of_nat.simps)

lemma find_filter_singleton: "filter P xs = [r] \<Longrightarrow> find P xs = Some r"
  by (induction xs) (auto split: if_splits)

lemma similarityMap_step_other:
  "\<not> connectsToRoot r k e \<Longrightarrow>
   (if source e = n_name r then m(target e \<mapsto> match e)
    else if target e = n_name r then m(source e \<mapsto> match e) else m) k = m k"
proof (cases "source e = n_name r")
  case True
  assume "\<not> connectsToRoot r k e"
  with True have "target e \<noteq> k" unfolding connectsToRoot_def by blast
  with True show ?thesis by simp
next
  case False
  assume "\<not> connectsToRoot r k e"
  then have "target e \<noteq> n_name r \<or> source e \<noteq> k" unfolding connectsToRoot_def by blast
  with False show ?thesis by auto
qed

lemma similarityMap_step_hit:
  "connectsToRoot r k e \<Longrightarrow>
   (if source e = n_name r then m(target e \<mapsto> match e)
    else if target e = n_name r then m(source e \<mapsto> match e) else m) k = Some (match e)"
proof (cases "source e = n_name r")
  case True
  assume "connectsToRoot r k e"
  with True have "target e = k" unfolding connectsToRoot_def by metis
  with True show ?thesis by simp
next
  case False
  assume "connectsToRoot r k e"
  with False have "target e = n_name r" "source e = k" unfolding connectsToRoot_def by blast+
  with False show ?thesis by simp
qed

lemma similarityMap_none:
  "\<forall>e\<in>set es. \<not> connectsToRoot r k e \<Longrightarrow> similarityMap r es k = None"
  unfolding similarityMap_def
  by (induction es rule: rev_induct) (simp_all add: similarityMap_step_other)

lemma similarityMap_some:
  "\<exists>e\<in>set es. connectsToRoot r k e \<Longrightarrow>
   \<exists>e\<in>set es. connectsToRoot r k e \<and> similarityMap r es k = Some (match e)"
proof (induction es rule: rev_induct)
  case Nil
  then show ?case by simp
next
  case (snoc e es)
  show ?case
  proof (cases "connectsToRoot r k e")
    case True
    then have "similarityMap r (es @ [e]) k = Some (match e)"
      by (simp add: similarityMap_def similarityMap_step_hit)
    with True show ?thesis by auto
  next
    case False
    with snoc.prems have "\<exists>e\<in>set es. connectsToRoot r k e" by auto
    from snoc.IH[OF this] obtain e' where
      e': "e' \<in> set es" "connectsToRoot r k e'" "similarityMap r es k = Some (match e')" by blast
    from False have "similarityMap r (es @ [e]) k = similarityMap r es k"
      by (simp add: similarityMap_def similarityMap_step_other)
    with e' show ?thesis by auto
  qed
qed

text \<open>
  C6. For a graph with exactly one \<open>isRoot\<close> node the export succeeds with one row per
  node, in order. The root's row reports 100%. The row of any other node that some edge
  joins to the root, in either direction, reports the score of such an edge as a
  percentage (\<open>match || 0\<close>, so a score that is not a number counts as 0). The row of a
  node that no edge joins to the root reports 0%.
\<close>

theorem csv_similarity_to_root:
  assumes "filter isRoot (nodes g) = [rootArtist]"
  shows "generateCSVFromGraph g =
           Inr (map (csvRow (similarityMap rootArtist (edges g))) (nodes g))
     \<and> (\<forall>n\<in>set (nodes g).
          r_name (csvRow (similarityMap rootArtist (edges g)) n) = n_name n
          \<and> (isRoot n \<longrightarrow>
               r_similarity (csvRow (similarityMap rootArtist (edges g)) n) = ''100%'')
          \<and> (\<not> isRoot n \<and> (\<exists>e\<in>set (edges g). connectsToRoot rootArtist (n_name n) e) \<longrightarrow>
               (\<exists>e\<in>set (edges g). connectsToRoot rootArtist (n_name n) e
                  \<and> r_similarity (csvRow (similarityMap rootArtist (edges g)) n)
                      = similarityPercent (or_zero (Some (match e)))))
          \<and> (\<not> isRoot n \<and> \<not> (\<exists>e\<in>set (edges g). connectsToRoot rootArtist (n_name n) e) \<longrightarrow>
               r_similarity (csvRow (similarityMap rootArtist (edges g)) n) = ''0%''))"
proof (intro conjI ballI impI)
  show "generateCSVFromGraph g =
          Inr (map (csvRow (similarityMap rootArtist (edges g))) (nodes g))"
    using find_filter_singleton[OF assms] by (simp add: generateCSVFromGraph_def)
next
  fix n :: artist_node show "r_name (csvRow (similarityMap rootArtist (edges g)) n) = n_name n"
    by (simp add: csvRow_def)
next
  fix n :: artist_node assume "isRoot n"
  then show "r_similarity (csvRow (similarityMap rootArtist (edges g)) n) = ''100%''"
    by (simp add: csvRow_def similarityToRoot_def similarityPercent_one)
next
  fix n :: artist_node
  assume a: "\<not> isRoot n \<and> (\<exists>e\<in>set (edges g). connectsToRoot rootArtist (n_name n) e)"
  then obtain e where e: "e \<in> set (edges g)" "connectsToRoot rootArtist (n_name n) e"
    "similarityMap rootArtist (edges g) (n_name n) = Some (match e)"
    using similarityMap_some by blast
  with a show "\<exists>e\<in>set (edges g). connectsToRoot rootArtist (n_name n) e
                  \<and> r_similarity (csvRow (similarityMap rootArtist (edges g)) n)
                      = similarityPercent (or_zero (Some (match e)))"
    by (auto simp: csvRow_def similarityToRoot_def)
next
  fix n :: artist_node
  assume a: "\<not> isRoot n \<and> \<not> (\<exists>e\<in>set (edges g). connectsToRoot rootArtist (n_name n) e)"
  then have "similarityMap rootArtist (edges g) (n_name n) = None"
    by (intro similarityMap_none) blast
  with a show "r_similarity (csvRow (similarityMap rootArtist (edges g)) n) = ''0%''"
    by (simp add: csvRow_def similarityToRoot_def similarityPercent_zero)
qed

theorem csv_similarity_to_root_witness:
  "filter isRoot (nodes graph_rooted) = [node_named ''Root'' True 0]
   \<and> generateCSVFromGraph graph_rooted =
       Inr [\<lparr> r_name = ''Root'', r_orbit = ''Root'', r_genres = [], r_similarity = ''100%'', r_url = [] \<rparr>,
            \<lparr> r_name = ''A'', r_orbit = ''1st Hop'', r_genres = [], r_similarity = ''90%'', r_url = [] \<rparr>,
            \<lparr> r_name = ''B'', r_orbit = ''2nd Hop'', r_genres = [], r_similarity = ''0%'', r_url = [] \<rparr>]"
proof -
  have h: "filter isRoot (nodes graph_rooted) = [node_named ''Root'' True 0]"
    by (simp add: graph_rooted_def node_named_def createArtistNode_def)
  from csv_similarity_to_root[OF h] have
    "generateCSVFromGraph graph_rooted =
       Inr (map (csvRow (similarityMap (node_named ''Root'' True 0) (edges graph_rooted)))
              (nodes graph_rooted))" by blast
  also have "\<dots> = Inr [\<lparr> r_name = ''Root'', r_orbit = ''Root'', r_genres = [], r_similarity = ''100%'', r_url = [] \<rparr>,
            \<lparr> r_name = ''A'', r_orbit = ''1st Hop'', r_genres = [], r_similarity = ''90%'', r_url = [] \<rparr>,
            \<lparr> r_name = ''B'', r_orbit = ''2nd Hop'', r_genres = [], r_similarity = ''0%'', r_url = [] \<rparr>]"
    by (simp add: graph_rooted_def node_named_def createArtistNode_def artist_named_def
          csvRow_def similarityMap_def similarityToRoot_def orbit_def
          similarityPercent_one similarityPercent_zero similarityPercent_90)
  finally show ?thesis using h by simp
qed

section \<open>A throttled request\<close>









end
